theory Spec2Isabelle
  imports Complex_Main
begin

text \<open>
  A shallow embedding of \<^verbatim>\<open>monaifbs/src/train/monai_dynunet_training.py\<close>, the script that
  trains a dynUNet segmentation model with MONAI. The first part holds the program: the
  file-list reader, the choice of the loss function, the reading of the configuration, the
  derivation of the kernel and stride schedule, and the two customised iteration callbacks.
  The second part holds the properties proved about it.
\<close>

chapter \<open>The program\<close>

section \<open>Values, errors and printed lines\<close>

text \<open>
  The configuration is a YAML document loaded into nested dictionaries: two levels of
  string keys (\<^verbatim>\<open>config['training']['loss_type']\<close>) over YAML values. Numbers with a
  fraction are rationals here; Python integers are unbounded.
\<close>

datatype yaml = YNone | YBool bool | YInt int | YFloat rat | YStr string | YList "yaml list"

type_synonym yaml_dict = "string \<rightharpoonup> yaml"
type_synonym config = "string \<rightharpoonup> yaml_dict"

text \<open>
  Every \<^verbatim>\<open>raise\<close> of the script, and the builtin failures the modelled statements can hit,
  are values of one error type; a computation returns \<open>py_error + 'a\<close> with \<open>Inl\<close> for the
  failure. \<open>SystemExit\<close> is what the builtin \<^verbatim>\<open>exit()\<close> ends the process with. The two
  \<^verbatim>\<open>FileNotFoundError\<close>s of the script carry the values their messages are formatted from.
\<close>

datatype not_found = ExpectedFiles string string | CannotFindModel yaml

datatype py_error =
    ZeroDivisionError
  | KeyError string
  | TypeError
  | IndexError
  | IOError string
  | FileNotFoundError not_found
  | SystemExit

text \<open>
  What the modelled statements print, one constructor per \<^verbatim>\<open>print\<close> call with the values
  its format string is filled with. A computation that prints returns the printed lines
  beside its result.
\<close>

datatype unpack_failure = NotEnoughValues nat | TooManyValues

datatype stdout_line =
    PrintValueError unpack_failure
  | PrintIncorrectFormat string
  | PrintLoading
  | PrintNumberOfInputs string nat
  | PrintDiceCELoss bool yaml
  | PrintBatchDice rat rat bool bool bool bool
  | PrintDice rat rat bool bool bool bool

type_synonym 'a py_result = "stdout_line list \<times> (py_error + 'a)"

text \<open>Statements run in sequence: the first failure is the failure of the whole.\<close>

definition py_bind :: "py_error + 'a \<Rightarrow> ('a \<Rightarrow> py_error + 'b) \<Rightarrow> py_error + 'b" where
  "py_bind m f = (case m of Inl e \<Rightarrow> Inl e | Inr x \<Rightarrow> f x)"

section \<open>Kernel and stride schedule (run\_training, lines 394--408)\<close>

text \<open>
  \<^verbatim>\<open>
  patch_size = config_info["training"]["inplane_size"] + [1]        # line 226
  spacing = config_info["training"]["spacing"]                      # line 229
  ...
  spacings = spacing[:2]
  sizes = patch_size[:2]
  strides, kernels = [], []
  while True:
      spacing_ratio = [sp / min(spacings) for sp in spacings]
      stride = [2 if ratio <= 2 and size >= 8 else 1 for (ratio, size) in zip(spacing_ratio, sizes)]
      kernel = [3 if ratio <= 2 else 1 for ratio in spacing_ratio]
      if all(s == 1 for s in stride):
          break
      sizes = [i / j for i, j in zip(sizes, stride)]
      spacings = [i * j for i, j in zip(spacings, stride)]
      kernels.append(kernel)
      strides.append(stride)
  strides.insert(0, len(spacings) * [1])
  kernels.append(len(spacings) * [3])
  \<close>
  The loop is \<open>derive_loop\<close>; \<open>run_training_strides_kernels\<close> is the whole passage, from
  the configured spacing and in-plane size to the two lists handed to the network.
  Spacings and sizes are numbers read from the YAML configuration; they are modelled as
  rationals, on which the doubling of a spacing and the halving of a size are exact (as
  they are on binary floating-point numbers short of overflow). The entries of a stride
  and of a kernel are Python integers. A division by a minimum spacing of zero raises
  \<open>ZeroDivisionError\<close>; on an empty list of spacings the comprehension never evaluates
  \<^verbatim>\<open>min(spacings)\<close>.
\<close>

definition spacing_ratio :: "rat list \<Rightarrow> py_error + rat list" where
  "spacing_ratio spacings =
     (if spacings = [] then Inr []
      else if min_list spacings = 0 then Inl ZeroDivisionError
      else Inr (map (\<lambda>sp. sp / min_list spacings) spacings))"

definition level_stride :: "rat list \<Rightarrow> rat list \<Rightarrow> int list" where
  "level_stride ratios sizes =
     map (\<lambda>(ratio, size). if ratio \<le> 2 \<and> size \<ge> 8 then 2 else 1) (zip ratios sizes)"

definition level_kernel :: "rat list \<Rightarrow> int list" where
  "level_kernel ratios = map (\<lambda>ratio. if ratio \<le> 2 then 3 else 1) ratios"

definition halve_sizes :: "rat list \<Rightarrow> int list \<Rightarrow> rat list" where
  "halve_sizes sizes stride = map (\<lambda>(i, j). i / of_int j) (zip sizes stride)"

definition double_spacings :: "rat list \<Rightarrow> int list \<Rightarrow> rat list" where
  "double_spacings spacings stride = map (\<lambda>(i, j). i * of_int j) (zip spacings stride)"

text \<open>
  The measure of the loop: the integer parts of the tracked sizes, added up. A level that
  does not end the loop halves a size of at least 8, so the measure drops; the lemmas that
  say so come before the loop, whose termination proof needs them.
\<close>

definition size_budget :: "rat list \<Rightarrow> nat" where
  "size_budget sizes = sum_list (map (\<lambda>z. nat \<lfloor>z\<rfloor>) sizes)"

lemma level_stride_simps:
  "level_stride [] sizes = []"
  "level_stride ratios [] = []"
  "level_stride (r # rs) (z # zs) =
     (if r \<le> 2 \<and> 8 \<le> z then 2 else 1) # level_stride rs zs"
  by (simp_all add: level_stride_def)

lemma level_kernel_simps:
  "level_kernel [] = []"
  "level_kernel (r # rs) = (if r \<le> 2 then 3 else 1) # level_kernel rs"
  by (simp_all add: level_kernel_def)

lemma halve_sizes_simps:
  "halve_sizes [] stride = []"
  "halve_sizes sizes [] = []"
  "halve_sizes (z # zs) (j # js) = z / of_int j # halve_sizes zs js"
  by (simp_all add: halve_sizes_def)

lemma double_spacings_simps:
  "double_spacings [] stride = []"
  "double_spacings spacings [] = []"
  "double_spacings (s # ss) (j # js) = s * of_int j # double_spacings ss js"
  by (simp_all add: double_spacings_def)

lemma size_budget_simps:
  "size_budget [] = 0"
  "size_budget (z # zs) = nat \<lfloor>z\<rfloor> + size_budget zs"
  by (simp_all add: size_budget_def)

lemma size_budget_step_le:
  "size_budget (halve_sizes sizes (level_stride ratios sizes)) \<le> size_budget sizes"
proof (induction sizes arbitrary: ratios)
  case Nil
  then show ?case by (simp add: halve_sizes_simps)
next
  case (Cons z zs)
  show ?case
  proof (cases ratios)
    case Nil
    then show ?thesis by (simp add: halve_sizes_simps level_stride_simps size_budget_simps)
  next
    case rs: (Cons r rs)
    have tl: "size_budget (halve_sizes zs (level_stride rs zs)) \<le> size_budget zs"
      by (rule Cons.IH)
    have hd: "nat \<lfloor>z / rat_of_int (if r \<le> 2 \<and> 8 \<le> z then 2 else 1)\<rfloor> \<le> nat \<lfloor>z\<rfloor>"
      by (auto intro!: nat_mono floor_mono)
    have "size_budget (halve_sizes (z # zs) (level_stride (r # rs) (z # zs))) =
          nat \<lfloor>z / rat_of_int (if r \<le> 2 \<and> 8 \<le> z then 2 else 1)\<rfloor> +
          size_budget (halve_sizes zs (level_stride rs zs))"
      by (simp only: level_stride_simps halve_sizes_simps size_budget_simps)
    with tl hd rs show ?thesis
      by (simp only: size_budget_simps)
  qed
qed

lemma size_budget_step_less:
  "\<not> list_all (\<lambda>s. s = 1) (level_stride ratios sizes) \<Longrightarrow>
   size_budget (halve_sizes sizes (level_stride ratios sizes)) < size_budget sizes"
proof (induction sizes arbitrary: ratios)
  case Nil
  then show ?case by (simp add: level_stride_simps)
next
  case (Cons z zs)
  show ?case
  proof (cases ratios)
    case Nil
    with Cons.prems show ?thesis by (simp add: level_stride_simps)
  next
    case rs: (Cons r rs)
    have le: "size_budget (halve_sizes zs (level_stride rs zs)) \<le> size_budget zs"
      by (rule size_budget_step_le)
    show ?thesis
    proof (cases "r \<le> 2 \<and> 8 \<le> z")
      case True
      then have "\<lfloor>z / 2\<rfloor> < \<lfloor>z\<rfloor>" by linarith
      moreover from True have "0 < \<lfloor>z\<rfloor>" by linarith
      ultimately have hd: "nat \<lfloor>z / 2\<rfloor> < nat \<lfloor>z\<rfloor>" by linarith
      from True have "size_budget (halve_sizes (z # zs) (level_stride (r # rs) (z # zs))) =
          nat \<lfloor>z / 2\<rfloor> + size_budget (halve_sizes zs (level_stride rs zs))"
        by (simp add: level_stride_simps halve_sizes_simps size_budget_simps)
      with le hd rs show ?thesis
        by (simp only: size_budget_simps)
    next
      case False
      then have st: "level_stride (r # rs) (z # zs) = 1 # level_stride rs zs"
        by (simp add: level_stride_simps)
      with Cons.prems rs have "\<not> list_all (\<lambda>s. s = 1) (level_stride rs zs)"
        by simp
      then have "size_budget (halve_sizes zs (level_stride rs zs)) < size_budget zs"
        by (rule Cons.IH)
      with rs st show ?thesis
        by (simp add: halve_sizes_simps size_budget_simps)
    qed
  qed
qed

function derive_loop ::
  "rat list \<Rightarrow> rat list \<Rightarrow> int list list \<Rightarrow> int list list
     \<Rightarrow> py_error + (rat list \<times> int list list \<times> int list list)" where
  "derive_loop spacings sizes strides kernels =
     (case spacing_ratio spacings of
        Inl e \<Rightarrow> Inl e
      | Inr ratios \<Rightarrow>
          if list_all (\<lambda>s. s = 1) (level_stride ratios sizes)
          then Inr (spacings, strides, kernels)
          else derive_loop (double_spacings spacings (level_stride ratios sizes))
                 (halve_sizes sizes (level_stride ratios sizes))
                 (strides @ [level_stride ratios sizes])
                 (kernels @ [level_kernel ratios]))"
  by pat_completeness auto
termination
  by (relation "measure (\<lambda>(spacings, sizes, strides, kernels). size_budget sizes)")
     (auto intro: size_budget_step_less)

declare derive_loop.simps [simp del]

definition run_training_strides_kernels ::
  "rat list \<Rightarrow> rat list \<Rightarrow> py_error + (int list list \<times> int list list)" where
  "run_training_strides_kernels spacing inplane_size =
     (let patch_size = inplane_size @ [1] in
      case derive_loop (take 2 spacing) (take 2 patch_size) [] [] of
        Inl e \<Rightarrow> Inl e
      | Inr (spacings, strides, kernels) \<Rightarrow>
          Inr (replicate (length spacings) 1 # strides,
               kernels @ [replicate (length spacings) 3]))"

section \<open>create\_data\_list\_of\_dictionaries (lines 81--111)\<close>

text \<open>
  \<^verbatim>\<open>
  full_list = []
  with open(input_file, 'r') as data:
      for line in data:
          line = line.rstrip('\n') if '\n' in line else line
          try:
              current_f, current_s = line.split(',')
          except ValueError as ve:
              print('ValueError: {} in function create_data_list_of_dictionaries()'.format(ve))
              print("Incorrect format for file {}. ...".format(input_file))
              exit()
          if os.path.isfile(current_f) and os.path.isfile(current_s):
              full_list.append({"image": current_f, "label": current_s})
          else:
              raise FileNotFoundError('Expected image file: {} or segmentation file: {} not found'
                                      .format(current_f, current_s))
  return full_list
  \<close>
  The opened file is the list \<open>data\<close> of its lines, each as the iteration yields it (with
  its newline). The file system is the predicate \<open>isfile\<close>. The unpacking of the fields into
  two names fails with a \<^verbatim>\<open>ValueError\<close> unless there are exactly two.
\<close>

definition rstrip_newline :: "string \<Rightarrow> string" where
  "rstrip_newline line =
     (if CHR 0x0A \<in> set line then rev (dropWhile (\<lambda>c. c = CHR 0x0A) (rev line)) else line)"

fun split_comma :: "string \<Rightarrow> string list" where
  "split_comma [] = [[]]"
| "split_comma (c # cs) =
     (if c = CHR '','' then [] # split_comma cs
      else (case split_comma cs of [] \<Rightarrow> [[c]] | w # ws \<Rightarrow> (c # w) # ws))"

definition unpack_two :: "string list \<Rightarrow> unpack_failure + (string \<times> string)" where
  "unpack_two fields =
     (case fields of
        [current_f, current_s] \<Rightarrow> Inr (current_f, current_s)
      | _ \<Rightarrow> if length fields < 2 then Inl (NotEnoughValues (length fields)) else Inl TooManyValues)"

definition read_line ::
  "(string \<Rightarrow> bool) \<Rightarrow> string \<Rightarrow> string \<Rightarrow> (string \<rightharpoonup> string) py_result" where
  "read_line isfile input_file line =
     (case unpack_two (split_comma (rstrip_newline line)) of
        Inl ve \<Rightarrow> ([PrintValueError ve, PrintIncorrectFormat input_file], Inl SystemExit)
      | Inr (current_f, current_s) \<Rightarrow>
          if isfile current_f \<and> isfile current_s
          then ([], Inr [''image'' \<mapsto> current_f, ''label'' \<mapsto> current_s])
          else ([], Inl (FileNotFoundError (ExpectedFiles current_f current_s))))"

fun read_lines ::
  "(string \<Rightarrow> bool) \<Rightarrow> string \<Rightarrow> string list \<Rightarrow> (string \<rightharpoonup> string) list
     \<Rightarrow> (string \<rightharpoonup> string) list py_result" where
  "read_lines isfile input_file [] full_list = ([], Inr full_list)"
| "read_lines isfile input_file (line # data) full_list =
     (case read_line isfile input_file line of
        (out, Inl e) \<Rightarrow> (out, Inl e)
      | (out, Inr entry) \<Rightarrow>
          (case read_lines isfile input_file data (full_list @ [entry]) of
             (out', r) \<Rightarrow> (out @ out', r)))"

definition create_data_list_of_dictionaries ::
  "(string \<Rightarrow> bool) \<Rightarrow> string \<Rightarrow> string list \<Rightarrow> (string \<rightharpoonup> string) list py_result" where
  "create_data_list_of_dictionaries isfile input_file data = read_lines isfile input_file data []"


section \<open>choose\_loss\_function (lines 114--182)\<close>

text \<open>
  \<^verbatim>\<open>
  do_sigmoid = True
  do_softmax = False
  if number_out_channels > 1:
      do_sigmoid = False
      do_softmax = True
  pow = 1.0
  if 'pow_dice' in config_dict['training']:
      pow = config_dict['training']['pow_dice']
  loss_type = config_dict['training']['loss_type']
  if loss_type == "dynDiceCELoss":
      batch_version = False
      loss_fn = DiceCELoss(pow=pow)
      print("[LOSS] Using DiceCELoss with batch_version={} and Dice^{}\n".format(batch_version, pow))
  elif loss_type == "dynDiceCELoss_batch":
      batch_version = True
      loss_fn = DiceCELoss(batch_version=batch_version, pow=pow)
      print(...)
  elif loss_type == "Batch_Dice":
      smooth_num = 1e-5; smooth_den = smooth_num; batch_version = True; squared_pred = False
      loss_fn = DiceLossExtended(sigmoid=do_sigmoid, softmax=do_softmax, smooth_num=smooth_num,
                                 smooth_den=smooth_den, squared_pred=squared_pred,
                                 batch_version=batch_version)
      print(...)
  elif loss_type == "Dice_Only":
      smooth_num = 0; smooth_den = smooth_num; batch_version = False; squared_pred = False
      loss_fn = DiceLossExtended(... the same keywords ...)
      print(...)
  else:
      raise IOError("Unrecognized loss type")
  return loss_fn
  \<close>
  The two loss classes live in \<^verbatim>\<open>monaifbs/src/utils/custom_losses.py\<close>; a loss function is
  modelled as the constructor call that makes it, with the keyword arguments the call
  passes. A keyword the call leaves out (\<^verbatim>\<open>batch_version\<close> in the first branch) is \<open>None\<close>:
  the constructor's default decides it, not this function.
\<close>

record dice_ce_args =
  batch_version_arg :: "bool option"
  pow_arg :: yaml

record dice_extended_args =
  sigmoid :: bool
  softmax :: bool
  smooth_num :: rat
  smooth_den :: rat
  squared_pred :: bool
  batch_version :: bool

datatype loss_fn = DiceCELoss dice_ce_args | DiceLossExtended dice_extended_args

definition dice_pow :: "yaml_dict \<Rightarrow> yaml" where
  "dice_pow training = (case training ''pow_dice'' of Some p \<Rightarrow> p | None \<Rightarrow> YFloat 1)"

definition choose_loss_function :: "int \<Rightarrow> config \<Rightarrow> loss_fn py_result" where
  "choose_loss_function number_out_channels config_dict =
     (let do_sigmoid = (if number_out_channels > 1 then False else True);
          do_softmax = (if number_out_channels > 1 then True else False)
      in case config_dict ''training'' of
           None \<Rightarrow> ([], Inl (KeyError ''training''))
         | Some training \<Rightarrow>
             (case training ''loss_type'' of
                None \<Rightarrow> ([], Inl (KeyError ''loss_type''))
              | Some loss_type \<Rightarrow>
                  if loss_type = YStr ''dynDiceCELoss'' then
                    ([PrintDiceCELoss False (dice_pow training)],
                     Inr (DiceCELoss \<lparr>batch_version_arg = None, pow_arg = dice_pow training\<rparr>))
                  else if loss_type = YStr ''dynDiceCELoss_batch'' then
                    ([PrintDiceCELoss True (dice_pow training)],
                     Inr (DiceCELoss \<lparr>batch_version_arg = Some True, pow_arg = dice_pow training\<rparr>))
                  else if loss_type = YStr ''Batch_Dice'' then
                    ([PrintBatchDice (1 / 100000) (1 / 100000) do_sigmoid do_softmax False True],
                     Inr (DiceLossExtended \<lparr>sigmoid = do_sigmoid, softmax = do_softmax,
                            smooth_num = 1 / 100000, smooth_den = 1 / 100000,
                            squared_pred = False, batch_version = True\<rparr>))
                  else if loss_type = YStr ''Dice_Only'' then
                    ([PrintDice 0 0 do_sigmoid do_softmax False False],
                     Inr (DiceLossExtended \<lparr>sigmoid = do_sigmoid, softmax = do_softmax,
                            smooth_num = 0, smooth_den = 0,
                            squared_pred = False, batch_version = False\<rparr>))
                  else ([], Inl (IOError ''Unrecognized loss type''))))"

section \<open>Reading the configuration (run\_training, lines 220--272 and 517--531)\<close>

text \<open>
  \<^verbatim>\<open>
  if 'seg_labels' in config_info['training'].keys():
      seg_labels = config_info['training']['seg_labels']
  else:
      seg_labels = [1]
  nr_out_channels = len(seg_labels)
  patch_size = config_info["training"]["inplane_size"] + [1]
  spacing = config_info["training"]["spacing"]
  if 'model_to_load' in config_info['training'].keys() and \
          config_info['training']['model_to_load'] is not None:
      model_to_load = config_info['training']['model_to_load']
      if not os.path.exists(model_to_load):
          raise FileNotFoundError("Cannot find model: {}".format(model_to_load))
  else:
      model_to_load = None
  if 'manual_seed' in config_info['training'].keys() and \
          config_info['training']['manual_seed'] is not None:
      seed = config_info['training']['manual_seed']
  else:
      seed = None
  if seed is not None:
      set_determinism(seed=seed)
  out_model_dir = os.path.join(config_info['output']['out_dir'],
                               datetime.now().strftime('%Y-%m-%d_%H-%M-%S') + '_' +
                               config_info['output']['out_postfix'])
  if 'cache_dir' in config_info['output'].keys():
      out_cache_dir = config_info['output']['cache_dir']
  else:
      out_cache_dir = os.path.join(out_model_dir, 'persistent_cache')
  persistent_cache: Path = Path(out_cache_dir)
  \<close>
  The statements in between (printing, the choice of the device) read none of these keys
  and are left out. A missing key raises \<^verbatim>\<open>KeyError\<close>, a value of the wrong kind
  \<^verbatim>\<open>TypeError\<close>. The clock is the parameter \<open>now\<close>, the formatted time stamp; what
  \<^verbatim>\<open>os.path.exists\<close> answers is the parameter \<open>path_exists\<close>; \<^verbatim>\<open>os.path.join\<close> of two
  strings is the POSIX one.
\<close>

definition section_of :: "config \<Rightarrow> string \<Rightarrow> py_error + yaml_dict" where
  "section_of config_info key =
     (case config_info key of None \<Rightarrow> Inl (KeyError key) | Some d \<Rightarrow> Inr d)"

definition item_of :: "yaml_dict \<Rightarrow> string \<Rightarrow> py_error + yaml" where
  "item_of d key = (case d key of None \<Rightarrow> Inl (KeyError key) | Some v \<Rightarrow> Inr v)"

definition py_len :: "yaml \<Rightarrow> py_error + int" where
  "py_len v =
     (case v of
        YList xs \<Rightarrow> Inr (int (length xs))
      | YStr s \<Rightarrow> Inr (int (length s))
      | _ \<Rightarrow> Inl TypeError)"

definition py_concat :: "yaml \<Rightarrow> yaml list \<Rightarrow> py_error + yaml" where
  "py_concat v ys = (case v of YList xs \<Rightarrow> Inr (YList (xs @ ys)) | _ \<Rightarrow> Inl TypeError)"

definition py_str_concat :: "string \<Rightarrow> yaml \<Rightarrow> py_error + string" where
  "py_str_concat s v = (case v of YStr t \<Rightarrow> Inr (s @ t) | _ \<Rightarrow> Inl TypeError)"

definition os_path_join :: "string \<Rightarrow> string \<Rightarrow> string" where
  "os_path_join a b =
     (if b \<noteq> [] \<and> hd b = CHR ''/'' then b
      else if a = [] \<or> last a = CHR ''/'' then a @ b
      else a @ ''/'' @ b)"

definition get_seg_labels :: "yaml_dict \<Rightarrow> yaml" where
  "get_seg_labels training =
     (case training ''seg_labels'' of Some v \<Rightarrow> v | None \<Rightarrow> YList [YInt 1])"

definition get_model_to_load :: "(yaml \<Rightarrow> py_error + bool) \<Rightarrow> yaml_dict \<Rightarrow> py_error + yaml" where
  "get_model_to_load path_exists training =
     (case training ''model_to_load'' of
        None \<Rightarrow> Inr YNone
      | Some v \<Rightarrow>
          if v = YNone then Inr YNone
          else py_bind (path_exists v) (\<lambda>found.
                 if \<not> found then Inl (FileNotFoundError (CannotFindModel v)) else Inr v))"

definition get_seed :: "yaml_dict \<Rightarrow> yaml" where
  "get_seed training =
     (case training ''manual_seed'' of
        None \<Rightarrow> YNone
      | Some v \<Rightarrow> if v = YNone then YNone else v)"

definition get_out_model_dir :: "string \<Rightarrow> yaml_dict \<Rightarrow> py_error + string" where
  "get_out_model_dir now out_section =
     py_bind (item_of out_section ''out_dir'') (\<lambda>out_dir.
     py_bind (item_of out_section ''out_postfix'') (\<lambda>out_postfix.
     py_bind (py_str_concat (now @ ''_'') out_postfix) (\<lambda>name.
       case out_dir of YStr d \<Rightarrow> Inr (os_path_join d name) | _ \<Rightarrow> Inl TypeError)))"

definition get_out_cache_dir :: "string \<Rightarrow> yaml_dict \<Rightarrow> py_error + string" where
  "get_out_cache_dir model_dir out_section =
     (case out_section ''cache_dir'' of
        Some v \<Rightarrow> (case v of YStr d \<Rightarrow> Inr d | _ \<Rightarrow> Inl TypeError)
      | None \<Rightarrow> Inr (os_path_join model_dir ''persistent_cache''))"

text \<open>
  The local variables of \<^verbatim>\<open>run_training\<close> after these statements. \<open>local_set_determinism\<close>
  is the seed \<^verbatim>\<open>set_determinism\<close> was called with, \<open>None\<close> when it was not called.
\<close>

record run_settings =
  local_seg_labels :: yaml
  local_nr_out_channels :: int
  local_patch_size :: yaml
  local_spacing :: yaml
  local_model_to_load :: yaml
  local_seed :: yaml
  local_set_determinism :: "yaml option"
  local_out_model_dir :: string
  local_persistent_cache :: string

definition run_training_setup ::
  "(yaml \<Rightarrow> py_error + bool) \<Rightarrow> string \<Rightarrow> config \<Rightarrow> py_error + run_settings" where
  "run_training_setup path_exists now config_info =
     py_bind (section_of config_info ''training'') (\<lambda>training.
     py_bind (py_len (get_seg_labels training)) (\<lambda>nr_out_channels.
     py_bind (item_of training ''inplane_size'') (\<lambda>inplane_size.
     py_bind (py_concat inplane_size [YInt 1]) (\<lambda>patch_size.
     py_bind (item_of training ''spacing'') (\<lambda>spacing.
     py_bind (get_model_to_load path_exists training) (\<lambda>model_to_load.
     py_bind (section_of config_info ''output'') (\<lambda>out_section.
     py_bind (get_out_model_dir now out_section) (\<lambda>out_model_dir.
     py_bind (get_out_cache_dir out_model_dir out_section) (\<lambda>out_cache_dir.
       Inr \<lparr>local_seg_labels = get_seg_labels training,
            local_nr_out_channels = nr_out_channels,
            local_patch_size = patch_size,
            local_spacing = spacing,
            local_model_to_load = model_to_load,
            local_seed = get_seed training,
            local_set_determinism =
              (if get_seed training \<noteq> YNone then Some (get_seed training) else None),
            local_out_model_dir = out_model_dir,
            local_persistent_cache = out_cache_dir\<rparr>)))))))))"

text \<open>
  The handlers of the trainer (lines 517--531): the checkpoint loader is appended only
  when a model to load was configured.
  \<^verbatim>\<open>
  train_handlers = [LrScheduleHandler(...), ValidationHandler(...), StatsHandler(...),
                    TensorBoardStatsHandler(...), CheckpointSaver(...)]
  if model_to_load is not None:
      train_handlers.append(CheckpointLoader(load_path=model_to_load, ...))
  \<close>
\<close>

datatype handler =
    LrScheduleHandler
  | ValidationHandler
  | StatsHandler
  | TensorBoardStatsHandler
  | CheckpointSaver
  | CheckpointLoader yaml

definition train_handlers :: "yaml \<Rightarrow> handler list" where
  "train_handlers model_to_load =
     [LrScheduleHandler, ValidationHandler, StatsHandler, TensorBoardStatsHandler, CheckpointSaver] @
     (if model_to_load \<noteq> YNone then [CheckpointLoader model_to_load] else [])"

section \<open>DynUNetTrainer.\_iteration (lines 534--557)\<close>

text \<open>
  \<^verbatim>\<open>
  def _compute_loss(preds, label):
      labels = [label] + [interpolate(label, pred.shape[2:]) for pred in preds[1:]]
      return sum([0.5 ** i * self.loss_function(p, l)
                  for i, (p, l) in enumerate(zip(preds, labels))])
  ...
  if self.amp and self.scaler is not None:
      with torch.cuda.amp.autocast():
          predictions = self.inferer(inputs, self.network)
          loss = _compute_loss(predictions, targets)
      ...
  else:
      predictions = self.inferer(inputs, self.network)
      loss = _compute_loss(predictions, targets).mean()
      ...
  \<close>
  The loss function, \<^verbatim>\<open>interpolate\<close>, the spatial shape of a prediction and the network
  (through the simple inferer: the list of its prediction heads) are parameters. A loss is
  a scalar, a real number here, so the mean of the second branch is the loss itself.
  \<^verbatim>\<open>sum\<close> starts from 0 and adds from the left.
\<close>

definition tensor_mean :: "real \<Rightarrow> real" where
  "tensor_mean loss = loss"

definition compute_loss ::
  "('p \<Rightarrow> 'l \<Rightarrow> real) \<Rightarrow> ('l \<Rightarrow> 's \<Rightarrow> 'l) \<Rightarrow> ('p \<Rightarrow> 's) \<Rightarrow> 'p list \<Rightarrow> 'l \<Rightarrow> real" where
  "compute_loss loss_function interpolate spatial_shape preds label =
     (let labels = [label] @ map (\<lambda>pred. interpolate label (spatial_shape pred)) (drop 1 preds)
      in foldl (+) 0
           (map (\<lambda>(i, (p, l)). (1 / 2) ^ i * loss_function p l) (enumerate 0 (zip preds labels))))"

definition trainer_iteration_loss ::
  "bool \<Rightarrow> bool \<Rightarrow> ('p \<Rightarrow> 'l \<Rightarrow> real) \<Rightarrow> ('l \<Rightarrow> 's \<Rightarrow> 'l) \<Rightarrow> ('p \<Rightarrow> 's) \<Rightarrow> ('x \<Rightarrow> 'p list)
     \<Rightarrow> 'x \<Rightarrow> 'l \<Rightarrow> real" where
  "trainer_iteration_loss amp has_scaler loss_function interpolate spatial_shape network inputs targets =
     (if amp \<and> has_scaler
      then compute_loss loss_function interpolate spatial_shape (network inputs) targets
      else tensor_mean (compute_loss loss_function interpolate spatial_shape (network inputs) targets))"

section \<open>DynUNetEvaluator.\_iteration (lines 457--481)\<close>


definition flip_index :: "nat list \<Rightarrow> nat list \<Rightarrow> nat list \<Rightarrow> nat list" where
  "flip_index shp dims idx =
     map (\<lambda>(d, i). if d \<in> set dims then shp ! d - 1 - i else i) (enumerate 0 idx)"








section \<open>The specification's wording, for comparison\<close>

text \<open>
  The definitions of this section are not taken from the script: they restate what the
  specification says, in its words, so that the program above can be compared with it.
\<close>

subsection \<open>The per-level rule of the schedule\<close>




subsection \<open>Well-formed lines of a file list\<close>

text \<open>
  A line, after stripping trailing newline characters, contains exactly one comma, and both
  comma-separated paths name existing files; its entry maps \<^verbatim>\<open>image\<close> to the first path
  and \<^verbatim>\<open>label\<close> to the second.
\<close>

definition spec_stripped :: "string \<Rightarrow> string" where
  "spec_stripped line = rev (dropWhile (\<lambda>c. c = CHR 0x0A) (rev line))"

definition spec_first_path :: "string \<Rightarrow> string" where
  "spec_first_path s = takeWhile (\<lambda>c. c \<noteq> CHR '','') s"

definition spec_second_path :: "string \<Rightarrow> string" where
  "spec_second_path s = drop 1 (dropWhile (\<lambda>c. c \<noteq> CHR '','') s)"

definition spec_commas :: "string \<Rightarrow> nat" where
  "spec_commas line = count_list (spec_stripped line) (CHR '','')"

definition spec_well_formed :: "(string \<Rightarrow> bool) \<Rightarrow> string \<Rightarrow> bool" where
  "spec_well_formed isfile line =
     (spec_commas line = 1 \<and>
      isfile (spec_first_path (spec_stripped line)) \<and>
      isfile (spec_second_path (spec_stripped line)))"

definition spec_entry :: "string \<Rightarrow> (string \<rightharpoonup> string)" where
  "spec_entry line =
     [''image'' \<mapsto> spec_first_path (spec_stripped line),
      ''label'' \<mapsto> spec_second_path (spec_stripped line)]"

subsection \<open>The recognised loss types\<close>

definition spec_recognised :: "string list" where
  "spec_recognised = [''dynDiceCELoss'', ''dynDiceCELoss_batch'', ''Batch_Dice'', ''Dice_Only'']"


subsection \<open>The label of a prediction head\<close>

text \<open>
  The label of the first head is the target itself; the label of a later head is the
  target interpolated to the spatial shape of that head.
\<close>

definition spec_head_label :: "('l \<Rightarrow> 's \<Rightarrow> 'l) \<Rightarrow> ('p \<Rightarrow> 's) \<Rightarrow> 'p list \<Rightarrow> 'l \<Rightarrow> nat \<Rightarrow> 'l" where
  "spec_head_label interpolate spatial_shape preds label i =
     (if i = 0 then label else interpolate label (spatial_shape (preds ! i)))"

subsection \<open>The average of four predictions\<close>


chapter \<open>Properties\<close>

section \<open>The kernel and stride schedule\<close>

subsection \<open>What the loop appends\<close>

lemma level_stride_entries: "list_all (\<lambda>s. s = 1 \<or> s = 2) (level_stride ratios sizes)"
  by (simp add: level_stride_def list_all_iff split: prod.splits)

lemma level_kernel_entries: "list_all (\<lambda>k. k = 1 \<or> k = 3) (level_kernel ratios)"
  by (induction ratios) (simp_all add: level_kernel_simps)

lemma derive_loop_appends:
  "derive_loop spacings sizes strides kernels = Inr (sp', sts, ks) \<Longrightarrow>
   \<exists>new_s new_k. sts = strides @ new_s \<and> ks = kernels @ new_k \<and>
      length new_s = length new_k \<and> length new_s \<le> size_budget sizes \<and>
      list_all (list_all (\<lambda>s. s = 1 \<or> s = 2)) new_s \<and>
      list_all (list_all (\<lambda>k. k = 1 \<or> k = 3)) new_k"
proof (induction spacings sizes strides kernels rule: derive_loop.induct)
  case (1 spacings sizes strides kernels)
  from "1.prems" obtain ratios where r: "spacing_ratio spacings = Inr ratios"
    by (subst (asm) derive_loop.simps) (auto split: sum.splits)
  show ?case
  proof (cases "list_all (\<lambda>s. s = 1) (level_stride ratios sizes)")
    case True
    with "1.prems" r have "sts = strides" "ks = kernels"
      by (subst (asm) derive_loop.simps, simp)+
    then show ?thesis by simp
  next
    case False
    let ?st = "level_stride ratios sizes"
    from "1.prems" r False
    have "derive_loop (double_spacings spacings ?st) (halve_sizes sizes ?st)
            (strides @ [?st]) (kernels @ [level_kernel ratios]) = Inr (sp', sts, ks)"
      by (subst (asm) derive_loop.simps) simp
    from "1.IH"[OF r False this] obtain new_s new_k where
      n: "sts = (strides @ [?st]) @ new_s" "ks = (kernels @ [level_kernel ratios]) @ new_k"
         "length new_s = length new_k" "length new_s \<le> size_budget (halve_sizes sizes ?st)"
         "list_all (list_all (\<lambda>s. s = 1 \<or> s = 2)) new_s"
         "list_all (list_all (\<lambda>k. k = 1 \<or> k = 3)) new_k"
      by blast
    from False have "size_budget (halve_sizes sizes ?st) < size_budget sizes"
      by (rule size_budget_step_less)
    with n have "sts = strides @ (?st # new_s) \<and> ks = kernels @ (level_kernel ratios # new_k) \<and>
      length (?st # new_s) = length (level_kernel ratios # new_k) \<and>
      length (?st # new_s) \<le> size_budget sizes \<and>
      list_all (list_all (\<lambda>s. s = 1 \<or> s = 2)) (?st # new_s) \<and>
      list_all (list_all (\<lambda>k. k = 1 \<or> k = 3)) (level_kernel ratios # new_k)"
      by (simp add: level_stride_entries level_kernel_entries)
    then show ?thesis by blast
  qed
qed

subsection \<open>Positive spacings never divide by zero\<close>

lemma min_list_pos: "xs \<noteq> [] \<Longrightarrow> list_all (\<lambda>s. 0 < s) xs \<Longrightarrow> 0 < min_list (xs :: rat list)"
  by (simp add: min_list_Min list_all_iff)

lemma spacing_ratio_pos:
  "list_all (\<lambda>s. 0 < s) spacings \<Longrightarrow> \<exists>ratios. spacing_ratio spacings = Inr ratios"
  using min_list_pos[of spacings] by (cases "spacings = []") (auto simp add: spacing_ratio_def)

lemma double_spacings_pos_gen:
  "list_all (\<lambda>s. 0 < s) spacings \<Longrightarrow> list_all (\<lambda>j. j = 1 \<or> j = 2) stride \<Longrightarrow>
   list_all (\<lambda>s. 0 < s) (double_spacings spacings stride)"
proof (induction spacings arbitrary: stride)
  case Nil
  then show ?case by (simp add: double_spacings_simps)
next
  case (Cons s ss)
  then show ?case by (cases stride) (auto simp add: double_spacings_simps)
qed

lemma double_spacings_pos:
  "list_all (\<lambda>s. 0 < s) spacings \<Longrightarrow>
   list_all (\<lambda>s. 0 < s) (double_spacings spacings (level_stride ratios sizes))"
  by (rule double_spacings_pos_gen) (simp_all add: level_stride_entries)

lemma derive_loop_returns:
  "list_all (\<lambda>s. 0 < s) spacings \<Longrightarrow> \<exists>res. derive_loop spacings sizes strides kernels = Inr res"
proof (induction spacings sizes strides kernels rule: derive_loop.induct)
  case (1 spacings sizes strides kernels)
  from spacing_ratio_pos[OF "1.prems"] obtain ratios where r: "spacing_ratio spacings = Inr ratios"
    by blast
  show ?case
  proof (cases "list_all (\<lambda>s. s = 1) (level_stride ratios sizes)")
    case True
    with r show ?thesis by (subst derive_loop.simps) simp
  next
    case False
    from "1.IH"[OF r False double_spacings_pos[OF "1.prems"]] r False
    show ?thesis by (subst derive_loop.simps) simp
  qed
qed

text \<open>
  A spacing of zero does not make the loop run on: the first level whose smallest spacing
  is zero raises \<^verbatim>\<open>ZeroDivisionError\<close>. Whatever the spacings and sizes, negative ones
  included, the loop ends: with its result or with that error.
\<close>

lemma derive_loop_zero_spacing:
  "spacings \<noteq> [] \<Longrightarrow> min_list spacings = 0 \<Longrightarrow>
   derive_loop spacings sizes strides kernels = Inl ZeroDivisionError"
  by (subst derive_loop.simps) (simp add: spacing_ratio_def)

lemma derive_loop_outcome:
  "derive_loop spacings sizes strides kernels = Inl ZeroDivisionError \<or>
   (\<exists>res. derive_loop spacings sizes strides kernels = Inr res)"
proof (induction spacings sizes strides kernels rule: derive_loop.induct)
  case (1 spacings sizes strides kernels)
  show ?case
  proof (cases "spacing_ratio spacings")
    case (Inl e)
    then have "e = ZeroDivisionError" by (auto simp add: spacing_ratio_def split: if_splits)
    with Inl show ?thesis by (subst derive_loop.simps) simp
  next
    case (Inr ratios)
    show ?thesis
    proof (cases "list_all (\<lambda>s. s = 1) (level_stride ratios sizes)")
      case True
      with Inr show ?thesis by (subst derive_loop.simps) simp
    next
      case False
      from "1.IH"[OF Inr False] Inr False show ?thesis
        by (subst (1 2) derive_loop.simps) simp
    qed
  qed
qed

subsection \<open>Two axes: the loop against the rule of the specification\<close>










subsection \<open>Claims about the schedule\<close>



text \<open>
  Claim C8. For two strictly positive spacings and two strictly positive sizes the loop
  returns (it raises nothing), after at most as many appending iterations as the integer
  parts of the two sizes add up to. The loop is a total function of its inputs: its
  termination is proved where it is defined, by the measure \<open>size_budget\<close>.
\<close>

theorem derivation_loop_terminates:
  assumes "0 < sa" "0 < sb" "0 < za" "0 < zb"
  shows "\<exists>spacings strides kernels.
           derive_loop [sa, sb] [za, zb] [] [] = Inr (spacings, strides, kernels) \<and>
           length strides = length kernels \<and>
           length strides \<le> nat \<lfloor>za\<rfloor> + nat \<lfloor>zb\<rfloor>"
proof -
  from assms(1,2) have "list_all (\<lambda>s. 0 < s) [sa, sb]" by simp
  from derive_loop_returns[OF this, of "[za, zb]" "[]" "[]"] obtain spacings strides kernels where
    d: "derive_loop [sa, sb] [za, zb] [] [] = Inr (spacings, strides, kernels)"
    by (metis prod_cases3)
  from derive_loop_appends[OF d] have "length strides = length kernels"
    "length strides \<le> size_budget [za, zb]" by auto
  with d show ?thesis by (simp add: size_budget_simps)
qed

theorem derivation_loop_terminates_witness:
  "(0::rat) < 1 \<and> (0::rat) < 3 \<and> (0::rat) < 64 \<and>
   (\<exists>spacings strides kernels.
           derive_loop [1, 3] [64, 64] [] [] = Inr (spacings, strides, kernels) \<and>
           length strides = length kernels \<and> length strides \<le> 128)"
proof -
  have pos: "(0::rat) < 1" "(0::rat) < 3" "(0::rat) < 64" "(0::rat) < 64"
    by simp_all
  have "nat \<lfloor>64::rat\<rfloor> + nat \<lfloor>64::rat\<rfloor> = 128" by simp
  with derivation_loop_terminates[OF pos] pos show ?thesis by auto
qed

text \<open>
  Claim C10. Whenever the derivation returns, for any lists of spacings and sizes, the
  stride list and the kernel list have the same length, which is at least 1, every entry
  of every stride is 1 or 2 and every entry of every kernel is 1 or 3.
\<close>

theorem schedule_shape:
  assumes "run_training_strides_kernels spacing inplane_size = Inr (strides, kernels)"
  shows "length strides = length kernels \<and> 1 \<le> length strides \<and>
         (\<forall>stride \<in> set strides. \<forall>s \<in> set stride. s = 1 \<or> s = 2) \<and>
         (\<forall>kernel \<in> set kernels. \<forall>k \<in> set kernel. k = 1 \<or> k = 3)"
proof -
  from assms obtain spacings sts ks where
    d: "derive_loop (take 2 spacing) (take 2 (inplane_size @ [1])) [] [] = Inr (spacings, sts, ks)"
    and s: "strides = replicate (length spacings) 1 # sts"
    and k: "kernels = ks @ [replicate (length spacings) 3]"
    by (auto simp add: run_training_strides_kernels_def split: sum.splits)
  from derive_loop_appends[OF d] have
    "length sts = length ks"
    "list_all (list_all (\<lambda>s. s = 1 \<or> s = 2)) sts"
    "list_all (list_all (\<lambda>k. k = 1 \<or> k = 3)) ks"
    by auto
  with s k show ?thesis by (auto simp add: list_all_iff)
qed

theorem schedule_shape_witness:
  "run_training_strides_kernels [1, 3] [64, 64] =
     Inr ([[1, 1], [2, 1], [2, 2], [2, 2], [2, 2], [1, 2]],
          [[3, 1], [3, 3], [3, 3], [3, 3], [3, 3], [3, 3]]) \<and>
   length [[1, 1], [2, 1], [2, 2], [2, 2], [2, 2], [1, 2::int]] =
   length [[3, 1], [3, 3], [3, 3], [3, 3], [3, 3], [3, 3::int]] \<and>
   list_all (list_all (\<lambda>s. s = 1 \<or> s = 2)) [[1, 1], [2, 1], [2, 2], [2, 2], [2, 2], [1, 2::int]] \<and>
   list_all (list_all (\<lambda>k. k = 1 \<or> k = 3)) [[3, 1], [3, 3], [3, 3], [3, 3], [3, 3], [3, 3::int]]"
proof -
  have h: "run_training_strides_kernels [1, 3] [64, 64] =
     Inr ([[1, 1], [2, 1], [2, 2], [2, 2], [2, 2], [1, 2]],
          [[3, 1], [3, 3], [3, 3], [3, 3], [3, 3], [3, 3]])"
    by code_simp
  from schedule_shape[OF h] h show ?thesis by (simp add: list_all_iff)
qed

section \<open>The file-list reader\<close>

subsection \<open>Splitting at commas\<close>

lemma split_comma_nonempty: "split_comma s \<noteq> []"
  by (induction s) (auto split: list.splits)

lemma length_split_comma: "length (split_comma s) = count_list s (CHR '','') + 1"
  by (induction s) (auto split: list.splits simp add: split_comma_nonempty)

lemma split_comma_no_comma: "count_list s (CHR '','') = 0 \<Longrightarrow> split_comma s = [s]"
  by (induction s) (auto split: if_splits)

lemma split_comma_one_comma:
  "count_list s (CHR '','') = 1 \<Longrightarrow> split_comma s = [spec_first_path s, spec_second_path s]"
proof (induction s)
  case Nil
  then show ?case by simp
next
  case (Cons c cs)
  show ?case
  proof (cases "c = CHR '',''")
    case True
    with Cons.prems have "count_list cs (CHR '','') = 0" by simp
    then have "split_comma cs = [cs]" by (rule split_comma_no_comma)
    with True show ?thesis by (simp add: spec_first_path_def spec_second_path_def)
  next
    case False
    with Cons.prems have "count_list cs (CHR '','') = 1" by simp
    then have "split_comma cs = [spec_first_path cs, spec_second_path cs]" by (rule Cons.IH)
    with False show ?thesis by (simp add: spec_first_path_def spec_second_path_def)
  qed
qed

lemma unpack_two_count:
  "unpack_two (split_comma s) =
     (if count_list s (CHR '','') = 1 then Inr (spec_first_path s, spec_second_path s)
      else if count_list s (CHR '','') = 0 then Inl (NotEnoughValues 1)
      else Inl TooManyValues)"
proof (cases "count_list s (CHR '','') = 1")
  case True
  then show ?thesis by (simp add: split_comma_one_comma unpack_two_def)
next
  case False
  have len: "length (split_comma s) = count_list s (CHR '','') + 1"
    by (rule length_split_comma)
  with False have "length (split_comma s) \<noteq> 2" by simp
  then have "unpack_two (split_comma s) =
      (if length (split_comma s) < 2 then Inl (NotEnoughValues (length (split_comma s)))
       else Inl TooManyValues)"
    by (auto simp add: unpack_two_def split: list.splits)
  with False len show ?thesis by auto
qed

subsection \<open>One line\<close>

text \<open>The conditional of the script around \<^verbatim>\<open>rstrip\<close> changes nothing.\<close>

lemma rstrip_newline_stripped: "rstrip_newline line = spec_stripped line"
proof (cases "CHR 0x0A \<in> set line")
  case True
  then show ?thesis by (simp add: rstrip_newline_def spec_stripped_def)
next
  case False
  then have "dropWhile (\<lambda>c. c = CHR 0x0A) (rev line) = rev line"
    by (cases "rev line") (auto simp add: dropWhile_eq_self_iff)
  with False show ?thesis by (simp add: rstrip_newline_def spec_stripped_def)
qed

lemma read_line_well_formed:
  "spec_well_formed isfile line \<Longrightarrow> read_line isfile input_file line = ([], Inr (spec_entry line))"
  by (simp add: read_line_def rstrip_newline_stripped unpack_two_count spec_well_formed_def
      spec_commas_def spec_entry_def)



subsection \<open>The loop over the lines\<close>

lemma read_lines_well_formed:
  "\<forall>line \<in> set good. spec_well_formed isfile line \<Longrightarrow>
   read_lines isfile input_file (good @ rest) full_list =
   read_lines isfile input_file rest (full_list @ map spec_entry good)"
  by (induction good arbitrary: full_list) (simp_all add: read_line_well_formed)


subsection \<open>Claims about the reader\<close>

text \<open>
  Claim C3. When every line of the file, after stripping trailing newline characters,
  contains exactly one comma and both comma-separated paths name existing files, the
  reader prints nothing and returns one dictionary per line, \<^verbatim>\<open>image\<close> mapped to the
  first path and \<^verbatim>\<open>label\<close> to the second, in the order of the lines.
\<close>

theorem file_list_in_order:
  assumes "\<forall>line \<in> set data. spec_well_formed isfile line"
  shows "create_data_list_of_dictionaries isfile input_file data =
           ([], Inr (map spec_entry data))"
  using read_lines_well_formed[OF assms, of input_file "[]" "[]"]
  by (simp add: create_data_list_of_dictionaries_def)

theorem file_list_in_order_witness:
  "create_data_list_of_dictionaries (\<lambda>p. p \<in> set [''a.nii'', ''b.nii'', ''c.nii'', ''d.nii''])
      ''list.txt'' [''a.nii,b.nii'' @ [CHR 0x0A], ''c.nii,d.nii''] =
     ([], Inr [[''image'' \<mapsto> ''a.nii'', ''label'' \<mapsto> ''b.nii''],
               [''image'' \<mapsto> ''c.nii'', ''label'' \<mapsto> ''d.nii'']])"
proof -
  let ?isfile = "\<lambda>p. p \<in> set [''a.nii'', ''b.nii'', ''c.nii'', ''d.nii'']"
  let ?data = "[''a.nii,b.nii'' @ [CHR 0x0A], ''c.nii,d.nii'']"
  have wf: "\<forall>line \<in> set ?data. spec_well_formed ?isfile line"
    by (simp add: spec_well_formed_def spec_commas_def spec_stripped_def
        spec_first_path_def spec_second_path_def)
  have ent: "map spec_entry ?data =
      [[''image'' \<mapsto> ''a.nii'', ''label'' \<mapsto> ''b.nii''],
       [''image'' \<mapsto> ''c.nii'', ''label'' \<mapsto> ''d.nii'']]"
    by (simp add: spec_entry_def spec_stripped_def spec_first_path_def spec_second_path_def)
  from file_list_in_order[OF wf, of "''list.txt''"] ent show ?thesis by simp
qed



section \<open>The choice of the loss function\<close>

text \<open>
  Claim C6. \<^verbatim>\<open>choose_loss_function\<close> raises an error exactly when
  \<^verbatim>\<open>config_dict['training']['loss_type']\<close> is not one of the four recognised strings
  (a missing key raises \<^verbatim>\<open>KeyError\<close> and is not one of them either); a value that is there
  and is not one of the four raises the \<^verbatim>\<open>IOError\<close> of the last branch, with nothing
  printed; for each of the four strings a loss function is returned.
\<close>

theorem loss_raises_iff_unrecognised:
  "((\<exists>e. snd (choose_loss_function n cfg) = Inl e) \<longleftrightarrow>
      \<not> (\<exists>training s. cfg ''training'' = Some training \<and>
             training ''loss_type'' = Some (YStr s) \<and> s \<in> set spec_recognised)) \<and>
   (\<forall>training v. cfg ''training'' = Some training \<and> training ''loss_type'' = Some v \<and>
        v \<notin> YStr ` set spec_recognised \<longrightarrow>
        choose_loss_function n cfg = ([], Inl (IOError ''Unrecognized loss type''))) \<and>
   (\<forall>training s. cfg ''training'' = Some training \<and> training ''loss_type'' = Some (YStr s) \<and>
        s \<in> set spec_recognised \<longrightarrow> (\<exists>loss_fn. snd (choose_loss_function n cfg) = Inr loss_fn))"
proof (cases "cfg ''training''")
  case None
  then show ?thesis by (simp add: choose_loss_function_def)
next
  case tr: (Some training)
  show ?thesis
  proof (cases "training ''loss_type''")
    case None
    with tr show ?thesis by (simp add: choose_loss_function_def)
  next
    case (Some v)
    with tr show ?thesis
      by (auto simp add: choose_loss_function_def spec_recognised_def Let_def)
  qed
qed

theorem loss_raises_iff_unrecognised_witness:
  "choose_loss_function 1 [''training'' \<mapsto> [''loss_type'' \<mapsto> YStr ''Dice'']] =
     ([], Inl (IOError ''Unrecognized loss type'')) \<and>
   (\<exists>loss_fn. snd (choose_loss_function 1 [''training'' \<mapsto> [''loss_type'' \<mapsto> YStr ''Dice_Only'']]) =
      Inr loss_fn)"
proof -
  have u: "YStr ''Dice'' \<notin> YStr ` set spec_recognised"
    and r: "''Dice_Only'' \<in> set spec_recognised"
    by (simp_all add: spec_recognised_def image_iff)
  from loss_raises_iff_unrecognised[of 1 "[''training'' \<mapsto> [''loss_type'' \<mapsto> YStr ''Dice'']]"] u
  have a: "choose_loss_function 1 [''training'' \<mapsto> [''loss_type'' \<mapsto> YStr ''Dice'']] =
     ([], Inl (IOError ''Unrecognized loss type''))"
    by simp
  from loss_raises_iff_unrecognised[of 1 "[''training'' \<mapsto> [''loss_type'' \<mapsto> YStr ''Dice_Only'']]"] r
  have b: "\<exists>loss_fn. snd (choose_loss_function 1 [''training'' \<mapsto> [''loss_type'' \<mapsto> YStr ''Dice_Only'']]) =
      Inr loss_fn"
    by simp
  from a b show ?thesis by blast
qed




section \<open>The optional keys of the configuration\<close>

lemma py_bind_Inr: "py_bind m f = Inr y \<longleftrightarrow> (\<exists>x. m = Inr x \<and> f x = Inr y)"
  by (cases m) (simp_all add: py_bind_def)

text \<open>
  Claim C9. Whenever the configuration is read without an error: without the key
  \<^verbatim>\<open>seg_labels\<close> the labels are \<open>[1]\<close> and there is one output channel; with
  \<^verbatim>\<open>manual_seed\<close> absent or None no seed is set (\<^verbatim>\<open>set_determinism\<close> is not called); with
  \<^verbatim>\<open>model_to_load\<close> absent or None no model is loaded (the trainer gets no checkpoint
  loader); without \<^verbatim>\<open>pow_dice\<close> the power of \<^verbatim>\<open>choose_loss_function\<close> is 1.0, also in
  the loss it returns; without \<^verbatim>\<open>cache_dir\<close> the persistent cache is the
  \<^verbatim>\<open>persistent_cache\<close> subdirectory of the time-stamped output directory.
\<close>

theorem optional_keys_default:
  assumes "config_info ''training'' = Some training" and "config_info ''output'' = Some out_section"
    and "run_training_setup path_exists now config_info = Inr s"
  shows "(training ''seg_labels'' = None \<longrightarrow>
            local_seg_labels s = YList [YInt 1] \<and> local_nr_out_channels s = 1) \<and>
         (training ''manual_seed'' = None \<or> training ''manual_seed'' = Some YNone \<longrightarrow>
            local_seed s = YNone \<and> local_set_determinism s = None) \<and>
         (training ''model_to_load'' = None \<or> training ''model_to_load'' = Some YNone \<longrightarrow>
            local_model_to_load s = YNone \<and>
            train_handlers (local_model_to_load s) =
              [LrScheduleHandler, ValidationHandler, StatsHandler, TensorBoardStatsHandler,
               CheckpointSaver]) \<and>
         (training ''pow_dice'' = None \<longrightarrow>
            dice_pow training = YFloat 1 \<and>
            (\<forall>n args. snd (choose_loss_function n config_info) = Inr (DiceCELoss args) \<longrightarrow>
               pow_arg args = YFloat 1)) \<and>
         (out_section ''cache_dir'' = None \<longrightarrow>
            local_persistent_cache s = os_path_join (local_out_model_dir s) ''persistent_cache'')"
proof -
  from assms(3) assms(1,2) obtain n ps sp m dir cache where
    parts: "py_len (get_seg_labels training) = Inr n"
      "get_model_to_load path_exists training = Inr m"
      "get_out_model_dir now out_section = Inr dir"
      "get_out_cache_dir dir out_section = Inr cache"
    and s: "s = \<lparr>local_seg_labels = get_seg_labels training,
            local_nr_out_channels = n,
            local_patch_size = ps,
            local_spacing = sp,
            local_model_to_load = m,
            local_seed = get_seed training,
            local_set_determinism = (if get_seed training \<noteq> YNone then Some (get_seed training) else None),
            local_out_model_dir = dir,
            local_persistent_cache = cache\<rparr>"
    by (auto simp add: run_training_setup_def py_bind_Inr section_of_def)
  have seg: "training ''seg_labels'' = None \<longrightarrow>
            local_seg_labels s = YList [YInt 1] \<and> local_nr_out_channels s = 1"
    using parts(1) by (auto simp add: s get_seg_labels_def py_len_def)
  have sd: "training ''manual_seed'' = None \<or> training ''manual_seed'' = Some YNone \<longrightarrow>
            local_seed s = YNone \<and> local_set_determinism s = None"
    by (auto simp add: s get_seed_def)
  have ml: "training ''model_to_load'' = None \<or> training ''model_to_load'' = Some YNone \<longrightarrow>
            local_model_to_load s = YNone \<and>
            train_handlers (local_model_to_load s) =
              [LrScheduleHandler, ValidationHandler, StatsHandler, TensorBoardStatsHandler,
               CheckpointSaver]"
  proof
    assume "training ''model_to_load'' = None \<or> training ''model_to_load'' = Some YNone"
    then have "get_model_to_load path_exists training = Inr YNone"
      by (auto simp add: get_model_to_load_def)
    with parts(2) have "m = YNone" by simp
    then show "local_model_to_load s = YNone \<and>
            train_handlers (local_model_to_load s) =
              [LrScheduleHandler, ValidationHandler, StatsHandler, TensorBoardStatsHandler,
               CheckpointSaver]"
      by (simp add: s train_handlers_def)
  qed
  have pw: "training ''pow_dice'' = None \<longrightarrow>
            dice_pow training = YFloat 1 \<and>
            (\<forall>n args. snd (choose_loss_function n config_info) = Inr (DiceCELoss args) \<longrightarrow>
               pow_arg args = YFloat 1)"
    using assms(1)
    by (auto simp add: dice_pow_def choose_loss_function_def Let_def split: option.splits if_splits)
  have cd: "out_section ''cache_dir'' = None \<longrightarrow>
            local_persistent_cache s = os_path_join (local_out_model_dir s) ''persistent_cache''"
    using parts(4) by (auto simp add: s get_out_cache_dir_def)
  from seg sd ml pw cd show ?thesis by blast
qed

theorem optional_keys_default_witness:
  "run_training_setup (\<lambda>v. Inr True) ''2020-11-01_10-00-00''
      [''training'' \<mapsto> [''inplane_size'' \<mapsto> YList [YInt 448, YInt 512],
                         ''spacing'' \<mapsto> YList [YFloat (4 / 5), YFloat (4 / 5), YFloat (- 1)],
                         ''loss_type'' \<mapsto> YStr ''dynDiceCELoss''],
       ''output'' \<mapsto> [''out_dir'' \<mapsto> YStr ''/tmp/out'',
                       ''out_postfix'' \<mapsto> YStr ''monai_dynUnet_2D'']] =
     Inr \<lparr>local_seg_labels = YList [YInt 1], local_nr_out_channels = 1,
          local_patch_size = YList [YInt 448, YInt 512, YInt 1],
          local_spacing = YList [YFloat (4 / 5), YFloat (4 / 5), YFloat (- 1)],
          local_model_to_load = YNone, local_seed = YNone, local_set_determinism = None,
          local_out_model_dir = ''/tmp/out/2020-11-01_10-00-00_monai_dynUnet_2D'',
          local_persistent_cache =
            ''/tmp/out/2020-11-01_10-00-00_monai_dynUnet_2D/persistent_cache''\<rparr> \<and>
   train_handlers YNone =
     [LrScheduleHandler, ValidationHandler, StatsHandler, TensorBoardStatsHandler, CheckpointSaver] \<and>
   dice_pow [''inplane_size'' \<mapsto> YList [YInt 448, YInt 512],
             ''spacing'' \<mapsto> YList [YFloat (4 / 5), YFloat (4 / 5), YFloat (- 1)],
             ''loss_type'' \<mapsto> YStr ''dynDiceCELoss''] = YFloat 1 \<and>
   os_path_join ''/tmp/out/2020-11-01_10-00-00_monai_dynUnet_2D'' ''persistent_cache'' =
     ''/tmp/out/2020-11-01_10-00-00_monai_dynUnet_2D/persistent_cache''"
proof -
  let ?training = "[''inplane_size'' \<mapsto> YList [YInt 448, YInt 512],
                    ''spacing'' \<mapsto> YList [YFloat (4 / 5), YFloat (4 / 5), YFloat (- 1)],
                    ''loss_type'' \<mapsto> YStr ''dynDiceCELoss'']"
  let ?output = "[''out_dir'' \<mapsto> YStr ''/tmp/out'', ''out_postfix'' \<mapsto> YStr ''monai_dynUnet_2D'']"
  let ?cfg = "[''training'' \<mapsto> ?training, ''output'' \<mapsto> ?output]"
  let ?s = "\<lparr>local_seg_labels = YList [YInt 1], local_nr_out_channels = 1,
          local_patch_size = YList [YInt 448, YInt 512, YInt 1],
          local_spacing = YList [YFloat (4 / 5), YFloat (4 / 5), YFloat (- 1)],
          local_model_to_load = YNone, local_seed = YNone, local_set_determinism = None,
          local_out_model_dir = ''/tmp/out/2020-11-01_10-00-00_monai_dynUnet_2D'',
          local_persistent_cache =
            ''/tmp/out/2020-11-01_10-00-00_monai_dynUnet_2D/persistent_cache''\<rparr>"
  have t: "?cfg ''training'' = Some ?training" and out: "?cfg ''output'' = Some ?output"
    by simp_all
  have run: "run_training_setup (\<lambda>v. Inr True) ''2020-11-01_10-00-00'' ?cfg = Inr ?s"
    by (simp add: run_training_setup_def py_bind_def section_of_def item_of_def py_len_def
        get_seg_labels_def py_concat_def get_model_to_load_def get_seed_def get_out_model_dir_def
        get_out_cache_dir_def py_str_concat_def os_path_join_def)
  have absent: "?training ''seg_labels'' = None" "?training ''manual_seed'' = None"
    "?training ''model_to_load'' = None" "?training ''pow_dice'' = None"
    "?output ''cache_dir'' = None"
    by simp_all
  note d = optional_keys_default[where config_info = ?cfg and training = ?training
      and out_section = ?output and s = ?s, OF t out run]
  from d absent(3) have h: "train_handlers (local_model_to_load ?s) =
     [LrScheduleHandler, ValidationHandler, StatsHandler, TensorBoardStatsHandler, CheckpointSaver]"
    by blast
  from d absent(4) have p: "dice_pow ?training = YFloat 1" by blast
  from d absent(5) have c: "local_persistent_cache ?s =
      os_path_join (local_out_model_dir ?s) ''persistent_cache''" by blast
  from h have h': "train_handlers YNone =
     [LrScheduleHandler, ValidationHandler, StatsHandler, TensorBoardStatsHandler, CheckpointSaver]"
    by simp
  from c have c': "os_path_join ''/tmp/out/2020-11-01_10-00-00_monai_dynUnet_2D'' ''persistent_cache'' =
     ''/tmp/out/2020-11-01_10-00-00_monai_dynUnet_2D/persistent_cache''"
    by simp
  from run h' p c' show ?thesis by blast
qed

section \<open>The deep-supervision loss\<close>

lemma foldl_plus_sum_list: "foldl (+) a xs = a + sum_list (xs :: real list)"
  by (induction xs arbitrary: a) simp_all

lemma head_labels_nth:
  assumes "i < length preds"
  shows "([label] @ map (\<lambda>pred. interpolate label (spatial_shape pred)) (drop 1 preds)) ! i =
         spec_head_label interpolate spatial_shape preds label i"
proof (cases i)
  case 0
  then show ?thesis by (simp add: spec_head_label_def)
next
  case (Suc j)
  with assms have "j < length (drop 1 preds)" by simp
  moreover from Suc assms have "drop 1 preds ! j = preds ! i" by simp
  ultimately show ?thesis using Suc by (simp add: spec_head_label_def)
qed

lemma head_labels_length:
  "preds \<noteq> [] \<Longrightarrow>
   length ([label] @ map (\<lambda>pred. interpolate label (spatial_shape pred)) (drop 1 preds)) = length preds"
  by (cases preds) simp_all

lemma compute_loss_sum:
  "compute_loss loss_function interpolate spatial_shape preds label =
     (\<Sum>i<length preds. (1 / 2) ^ i *
        loss_function (preds ! i) (spec_head_label interpolate spatial_shape preds label i))"
proof (cases "preds = []")
  case True
  then show ?thesis by (simp add: compute_loss_def enumerate_eq_zip)
next
  case False
  let ?labels = "[label] @ map (\<lambda>pred. interpolate label (spatial_shape pred)) (drop 1 preds)"
  let ?terms = "map (\<lambda>(i, (p, l)). (1 / 2) ^ i * loss_function p l) (enumerate 0 (zip preds ?labels))"
  have len: "length ?labels = length preds" using False by (rule head_labels_length)
  then have lt: "length ?terms = length preds" by simp
  have nth: "?terms ! i = (1 / 2) ^ i *
        loss_function (preds ! i) (spec_head_label interpolate spatial_shape preds label i)"
    if "i < length preds" for i
  proof -
    from that len have "enumerate 0 (zip preds ?labels) ! i = (i, (preds ! i, ?labels ! i))"
      by (simp add: nth_enumerate_eq)
    moreover from that lt have "?terms ! i =
        (\<lambda>(i, (p, l)). (1 / 2) ^ i * loss_function p l) (enumerate 0 (zip preds ?labels) ! i)"
      by (intro nth_map) simp
    ultimately show ?thesis using head_labels_nth[OF that, of label interpolate spatial_shape]
      by simp
  qed
  have "compute_loss loss_function interpolate spatial_shape preds label = sum_list ?terms"
    by (simp add: compute_loss_def foldl_plus_sum_list del: append.simps)
  also have "\<dots> = (\<Sum>i = 0..<length ?terms. ?terms ! i)" by (rule sum_list_sum_nth)
  also have "\<dots> = (\<Sum>i<length preds. ?terms ! i)" by (simp only: lt atLeast0LessThan)
  also have "\<dots> = (\<Sum>i<length preds. (1 / 2) ^ i *
        loss_function (preds ! i) (spec_head_label interpolate spatial_shape preds label i))"
  proof (rule sum.cong)
    show "{..<length preds} = {..<length preds}" by (rule refl)
  next
    fix i assume "i \<in> {..<length preds}"
    then have "i < length preds" by simp
    then show "?terms ! i = (1 / 2) ^ i *
        loss_function (preds ! i) (spec_head_label interpolate spatial_shape preds label i)"
      by (rule nth)
  qed
  finally show ?thesis .
qed

text \<open>
  Claim C2. For every list of prediction heads and every target, the loss of a training
  iteration is the sum over the heads of \<open>0.5 ^ i\<close> times the loss of head \<open>i\<close> against its
  label, where the label of head 0 is the target itself and the label of a later head is
  the target interpolated to the spatial shape of that head; for three heads it is
  \<open>loss p0 l + 0.5 * loss p1 l1 + 0.25 * loss p2 l2\<close>. (An empty list of heads gives 0.)
\<close>

theorem deep_supervision_loss:
  "compute_loss loss_function interpolate spatial_shape preds label =
     (\<Sum>i<length preds. (1 / 2) ^ i *
        loss_function (preds ! i) (spec_head_label interpolate spatial_shape preds label i)) \<and>
   trainer_iteration_loss amp has_scaler loss_function interpolate spatial_shape network inputs label =
     (\<Sum>i<length (network inputs). (1 / 2) ^ i *
        loss_function (network inputs ! i)
          (spec_head_label interpolate spatial_shape (network inputs) label i)) \<and>
   spec_head_label interpolate spatial_shape preds label 0 = label \<and>
   compute_loss loss_function interpolate spatial_shape [p0, p1, p2] label =
     loss_function p0 label + 0.5 * loss_function p1 (interpolate label (spatial_shape p1)) +
     0.25 * loss_function p2 (interpolate label (spatial_shape p2))"
proof -
  have three: "compute_loss loss_function interpolate spatial_shape [p0, p1, p2] label =
     loss_function p0 label + 0.5 * loss_function p1 (interpolate label (spatial_shape p1)) +
     0.25 * loss_function p2 (interpolate label (spatial_shape p2))"
    by (simp add: compute_loss_def enumerate_eq_zip upt_rec power2_eq_square)
  have it: "trainer_iteration_loss amp has_scaler loss_function interpolate spatial_shape network inputs label =
     compute_loss loss_function interpolate spatial_shape (network inputs) label"
    by (simp add: trainer_iteration_loss_def tensor_mean_def)
  show ?thesis
    by (simp only: it three compute_loss_sum) (simp add: spec_head_label_def)
qed

theorem deep_supervision_loss_witness:
  "compute_loss (\<lambda>p l. p + l) (\<lambda>l s. l * real s) (\<lambda>p. 2::nat) [1, 2, 3] 4 = 51 / 4 \<and>
   trainer_iteration_loss False False (\<lambda>p l. p + l) (\<lambda>l s. l * real s) (\<lambda>p. 2::nat)
     (\<lambda>x::unit. [1, 2, 3]) () 4 = 51 / 4"
proof -
  note t = deep_supervision_loss[where loss_function = "\<lambda>p l. p + l"
      and interpolate = "\<lambda>l s. l * real s" and spatial_shape = "\<lambda>p::real. 2::nat"
      and preds = "[1, 2, 3]" and label = 4 and amp = False and has_scaler = False
      and network = "\<lambda>x::unit. [1, 2, 3]" and inputs = "()" and ?p0.0 = 1 and ?p1.0 = 2
      and ?p2.0 = 3]
  from t have three: "compute_loss (\<lambda>p l. p + l) (\<lambda>l s. l * real s) (\<lambda>p. 2::nat) [1, 2, 3] 4 =
      (1 + 4) + 0.5 * (2 + 4 * real (2::nat)) + 0.25 * (3 + 4 * real (2::nat))"
    by blast
  from t have it: "trainer_iteration_loss False False (\<lambda>p l. p + l) (\<lambda>l s. l * real s)
       (\<lambda>p. 2::nat) (\<lambda>x::unit. [1, 2, 3]) () 4 =
     (\<Sum>i<length [1, 2, 3::real]. (1 / 2) ^ i * (([1, 2, 3] ! i) +
        spec_head_label (\<lambda>l s. l * real s) (\<lambda>p::real. 2::nat) [1, 2, 3] 4 i))"
    by blast
  have "compute_loss (\<lambda>p l. p + l) (\<lambda>l s. l * real s) (\<lambda>p. 2::nat) [1, 2, 3] 4 = 51 / 4"
    by (simp only: three) simp
  moreover have "trainer_iteration_loss False False (\<lambda>p l. p + l) (\<lambda>l s. l * real s)
       (\<lambda>p. 2::nat) (\<lambda>x::unit. [1, 2, 3]) () 4 = 51 / 4"
    by (simp only: it) (simp add: spec_head_label_def lessThan_Suc numeral_3_eq_3 power2_eq_square)
  ultimately show ?thesis by blast
qed

section \<open>The evaluator's average over flips\<close>






text \<open>Flipping twice along the same dimensions gives back every index of the tensor.\<close>

lemma flip_index_nth:
  "d < length idx \<Longrightarrow>
   flip_index shp dims idx ! d = (if d \<in> set dims then shp ! d - 1 - idx ! d else idx ! d)"
  by (simp add: flip_index_def nth_enumerate_eq)

lemma flip_index_twice:
  assumes "\<forall>d<length idx. idx ! d < shp ! d"
  shows "flip_index shp dims (flip_index shp dims idx) = idx"
proof (rule nth_equalityI)
  show "length (flip_index shp dims (flip_index shp dims idx)) = length idx"
    by (simp add: flip_index_def)
next
  fix d assume "d < length (flip_index shp dims (flip_index shp dims idx))"
  then have d: "d < length idx" by (simp add: flip_index_def)
  then have d': "d < length (flip_index shp dims idx)" by (simp add: flip_index_def)
  from assms d have "idx ! d < shp ! d" by simp
  then show "flip_index shp dims (flip_index shp dims idx) ! d = idx ! d"
    by (simp add: flip_index_nth[OF d'] flip_index_nth[OF d])
qed




end
